theory Spec2Isabelle
  imports Main "HOL-Library.AList"
begin

section \<open>A shallow embedding of \<open>loki_connect.py\<close>\<close>

subsection \<open>Python values\<close>

text \<open>
  The arguments of \<open>LokiConnect.query\<close> are not checked by Python against their
  annotations, and the method itself tests their truth value and their type, so they
  are modelled as dynamically typed values: \<open>None\<close>, booleans, integers, strings and
  lists.
\<close>

datatype pyval = PNone | PBool bool | PInt int | PStr string | PList "pyval list"

text \<open>Python's truth value testing (\<open>if x:\<close>).\<close>

fun truthy :: "pyval \<Rightarrow> bool" where
  "truthy PNone = False"
| "truthy (PBool b) = b"
| "truthy (PInt n) = (n \<noteq> 0)"
| "truthy (PStr s) = (s \<noteq> [])"
| "truthy (PList xs) = (xs \<noteq> [])"

text \<open>\<open>isinstance(x, str)\<close>.\<close>

fun isinstance_str :: "pyval \<Rightarrow> bool" where
  "isinstance_str (PStr s) = True"
| "isinstance_str v = False"

subsection \<open>Dictionaries and the store\<close>

text \<open>
  A \<open>dict\<close> keeps its keys in insertion order; \<open>d[k] = v\<close> replaces the value of an
  existing key in place and appends a new key, which is what \<open>AList.update\<close> does.
  Dictionaries are objects: the caller and the method hold references to them, so
  they live in a store, a list of dictionaries indexed by address. \<open>{}\<close> allocates
  the next address.
\<close>

type_synonym dict = "(string \<times> pyval) list"

type_synonym addr = nat

subsection \<open>Requests, responses and exceptions\<close>

text \<open>
  What \<open>self._session.get(url, verify=..., headers=..., params=...)\<close> is called with.
  The dictionaries are recorded with the contents they have at the time of the call.
\<close>

record request =
  req_url :: string
  req_verify :: bool
  req_headers :: "dict option"
  req_params :: dict

text \<open>
  A response: its status, its body, and whether it carries a non-empty
  \<open>Retry-After\<close> header.
\<close>

record response =
  status_code :: int
  resp_body :: string
  retry_after :: bool

text \<open>
  The messages of the exceptions the module raises itself, kept as data:
  \<open>"missing url"\<close>, \<open>"Incorrect query type: {}, should be type: {}"\<close> (with the
  offending value), \<open>"query empty"\<close> and \<open>"Invalid direction Value: {}"\<close> (with the
  value). \<open>Urlparse_rejected\<close> stands for the \<open>ValueError\<close> that \<open>urlparse\<close> raises
  on a URL it does not accept.
\<close>

datatype msg =
    Missing_url
  | Incorrect_query_type pyval
  | Query_empty
  | Invalid_direction pyval
  | Urlparse_rejected

datatype exn =
    TypeError msg
  | ValueError msg
  | HTTPError response
  | JSONDecodeError
  | RetryError
  | ConnectionError

text \<open>
  The world outside the process: the wire, on which one HTTP exchange (the \<open>n\<close>-th
  since the start, counted from 0) either gets the server's response or fails to
  connect or to read, and the JSON decoder behind \<open>response.json()\<close>, which returns no
  value on a body that is not valid JSON. A redirect that \<open>requests\<close> would follow by
  itself is not among the answers of the wire.
\<close>

record 'j env =
  wire :: "nat \<Rightarrow> request \<Rightarrow> response option"
  json_loads :: "string \<Rightarrow> 'j option"

text \<open>
  \<open>requests.Response.raise_for_status\<close> raises \<open>HTTPError\<close> when the status is a
  client error (\<open>400 <= status_code < 500\<close>) or a server error
  (\<open>500 <= status_code < 600\<close>) and returns otherwise;
  \<open>requests.Response.ok\<close> is true unless \<open>raise_for_status\<close> raises;
  \<open>requests.Response.json\<close> decodes the body.
\<close>

definition raise_for_status :: "response \<Rightarrow> exn option" where
  "raise_for_status r =
     (if 400 \<le> status_code r \<and> status_code r < 500 then Some (HTTPError r)
      else if 500 \<le> status_code r \<and> status_code r < 600 then Some (HTTPError r)
      else None)"

definition ok :: "response \<Rightarrow> bool" where
  "ok r = (case raise_for_status r of Some e \<Rightarrow> False | None \<Rightarrow> True)"

definition json :: "'j env \<Rightarrow> response \<Rightarrow> exn + 'j" where
  "json env r =
     (case json_loads env (resp_body r) of None \<Rightarrow> Inl JSONDecodeError | Some j \<Rightarrow> Inr j)"

subsection \<open>The client object\<close>

text \<open>The three arguments the module gives to \<open>Retry\<close>.\<close>

record retry =
  retry_total :: int
  retry_backoff_factor :: int
  retry_status_forcelist :: "int list"

text \<open>The session, with the adapter the constructor mounts on it.\<close>

record http_session =
  mount_prefix :: string
  max_retries :: retry

record loki_connect =
  headers :: "addr option"
  url :: string
  loki_host :: string
  all_metrics :: pyval
  ssl_verification :: bool
  ignore_http_errors :: bool
  session :: http_session

definition MAX_REQUEST_RETRIES :: int where
  "MAX_REQUEST_RETRIES = 3"

definition RETRY_BACKOFF_FACTOR :: int where
  "RETRY_BACKOFF_FACTOR = 1"

definition RETRY_ON_STATUS :: "int list" where
  "RETRY_ON_STATUS = [408, 429, 500, 502, 503, 504]"

text \<open>
  \<open>LokiConnect.__init__\<close>. The first argument is \<open>urlparse(url).netloc\<close> of the
  standard library, which returns the host part of a URL or raises \<open>ValueError\<close>
  (for instance \<open>Invalid IPv6 URL\<close> on \<open>http://[\<close>); \<open>None\<close> is the raise. The
  \<open>url\<close> argument is a string or \<open>None\<close>, \<open>headers\<close> a reference to a dictionary or
  \<open>None\<close>, \<open>retry\<close> a \<open>Retry\<close> object or \<open>None\<close>. An argument the caller omits is
  passed here with its default: \<open>"http://127.0.0.1:3100"\<close>, \<open>None\<close>, \<open>False\<close>, \<open>None\<close>
  and \<open>False\<close>.
\<close>

definition init ::
  "(string \<Rightarrow> string option) \<Rightarrow> string option \<Rightarrow> addr option \<Rightarrow> bool \<Rightarrow> retry option \<Rightarrow> bool
     \<Rightarrow> exn + loki_connect" where
  "init urlparse_netloc url_arg headers_arg disable_ssl retry_arg ignore_arg =
     (case url_arg of
        None \<Rightarrow> Inl (TypeError Missing_url)
      | Some u \<Rightarrow>
          (case urlparse_netloc u of
             None \<Rightarrow> Inl (ValueError Urlparse_rejected)
           | Some host \<Rightarrow>
               (let r = (case retry_arg of
                           None \<Rightarrow> \<lparr>retry_total = MAX_REQUEST_RETRIES,
                                    retry_backoff_factor = RETRY_BACKOFF_FACTOR,
                                    retry_status_forcelist = RETRY_ON_STATUS\<rparr>
                         | Some r' \<Rightarrow> r')
                in Inr \<lparr>headers = headers_arg,
                        url = u,
                        loki_host = host,
                        all_metrics = PNone,
                        ssl_verification = (\<not> disable_ssl),
                        ignore_http_errors = ignore_arg,
                        session = \<lparr>mount_prefix = u, max_retries = r\<rparr>\<rparr>)))"

subsection \<open>The session and its retry policy\<close>

text \<open>
  \<open>self._session.get\<close> goes through the \<open>HTTPAdapter\<close> mounted on the client's URL,
  which hands the \<open>Retry\<close> object to \<open>urllib3\<close>. There, \<open>Retry.is_retry\<close> asks for
  another attempt when the status is in \<open>status_forcelist\<close>, or when the retries
  left are not zero and the response has a \<open>Retry-After\<close> header and one of the
  statuses 413, 429, 503.
\<close>

definition RETRY_AFTER_STATUS_CODES :: "int list" where
  "RETRY_AFTER_STATUS_CODES = [413, 429, 503]"

definition is_retry :: "int list \<Rightarrow> int \<Rightarrow> response \<Rightarrow> bool" where
  "is_retry forcelist tot r =
     (status_code r \<in> set forcelist
      \<or> (tot \<noteq> 0 \<and> retry_after r \<and> status_code r \<in> set RETRY_AFTER_STATUS_CODES))"

text \<open>
  \<open>HTTPConnectionPool.urlopen\<close> with \<open>Retry.increment\<close>: a failed exchange, and a
  response that \<open>is_retry\<close> accepts, take one from \<open>total\<close>; when that falls below
  zero the retries are exhausted, which \<open>requests\<close> reports as \<open>ConnectionError\<close>
  after a failed exchange and as \<open>RetryError\<close> after a response; otherwise the
  request is made again. So \<open>total\<close> is the number of retries, after the first
  attempt. The result comes with the number of exchanges made so far. The waiting
  between attempts, which is all that \<open>backoff_factor\<close> governs, takes no part in the
  result.
\<close>

function urlopen ::
  "(nat \<Rightarrow> request \<Rightarrow> response option) \<Rightarrow> int list \<Rightarrow> int \<Rightarrow> nat \<Rightarrow> request
     \<Rightarrow> (exn + response) \<times> nat" where
  "urlopen w forcelist tot n req =
     (case w n req of
        None \<Rightarrow>
          if tot - 1 < 0 then (Inl ConnectionError, Suc n)
          else urlopen w forcelist (tot - 1) (Suc n) req
      | Some r \<Rightarrow>
          if is_retry forcelist tot r then
            if tot - 1 < 0 then (Inl RetryError, Suc n)
            else urlopen w forcelist (tot - 1) (Suc n) req
          else (Inr r, Suc n))"
  by pat_completeness auto
termination
  by (relation "measure (\<lambda>(w, forcelist, tot, n, req). nat tot)") auto

declare urlopen.simps [simp del]

definition session_get :: "'j env \<Rightarrow> loki_connect \<Rightarrow> nat \<Rightarrow> request \<Rightarrow> (exn + response) \<times> nat" where
  "session_get env c n req =
     urlopen (wire env) (retry_status_forcelist (max_retries (session c)))
       (retry_total (max_retries (session c))) n req"

subsection \<open>The state the methods run in\<close>

text \<open>
  The client object, the store of dictionaries, the log of the calls of
  \<open>self._session.get\<close>, oldest first, and the number of HTTP exchanges made on the
  wire.
\<close>

record world =
  self :: loki_connect
  heap :: "dict list"
  sent :: "request list"
  exchanges :: nat

text \<open>
  A reference held by the caller points into the store. Python has no other
  references, so this is assumed where a property reads the caller's dictionary.
\<close>

definition valid_ref :: "world \<Rightarrow> addr option \<Rightarrow> bool" where
  "valid_ref w p = (case p of None \<Rightarrow> True | Some a \<Rightarrow> a < length (heap w))"

text \<open>
  \<open>params = params or {}\<close>: a non-empty dictionary is kept, by reference; \<open>None\<close> and
  the empty dictionary are falsy and replaced by a newly allocated empty dictionary.
\<close>

definition params_or_new :: "addr option \<Rightarrow> world \<Rightarrow> addr \<times> world" where
  "params_or_new params w =
     (case params of
        None \<Rightarrow> (length (heap w), w\<lparr>heap := heap w @ [[]]\<rparr>)
      | Some a \<Rightarrow>
          if heap w ! a \<noteq> [] then (a, w)
          else (length (heap w), w\<lparr>heap := heap w @ [[]]\<rparr>))"

text \<open>\<open>d[k] = v\<close> on the dictionary at address \<open>a\<close>.\<close>

definition setitem :: "addr \<Rightarrow> string \<Rightarrow> pyval \<Rightarrow> world \<Rightarrow> world" where
  "setitem a k v w = w\<lparr>heap := (heap w)[a := AList.update k v (heap w ! a)]\<rparr>"

text \<open>The call of \<open>self._session.get\<close> on a path, with the dictionary at \<open>p\<close> as params.\<close>

definition get_request :: "string \<Rightarrow> addr \<Rightarrow> world \<Rightarrow> request" where
  "get_request path p w =
     \<lparr>req_url = url (self w) @ path,
      req_verify = ssl_verification (self w),
      req_headers = map_option (\<lambda>h. heap w ! h) (headers (self w)),
      req_params = heap w ! p\<rparr>"

definition session_get_call :: "'j env \<Rightarrow> request \<Rightarrow> world \<Rightarrow> (exn + response) \<times> world" where
  "session_get_call env req w =
     (let (res, n) = session_get env (self w) (exchanges w) req
      in (res, w\<lparr>sent := sent w @ [req], exchanges := n\<rparr>))"

subsection \<open>\<open>LokiConnect.ready\<close>\<close>

definition ready :: "'j env \<Rightarrow> addr option \<Rightarrow> world \<Rightarrow> (exn + bool) \<times> world" where
  "ready env params w0 =
     (let (p, w1) = params_or_new params w0;
          (res, w2) = session_get_call env (get_request ''/ready'' p w1) w1
      in case res of
           Inl e \<Rightarrow> (Inl e, w2)
         | Inr response \<Rightarrow> (Inr (ok response), w2))"

subsection \<open>\<open>LokiConnect.query\<close>\<close>

definition direction_supported_values :: "pyval list" where
  "direction_supported_values = [PStr ''backward'', PStr ''forward'']"

text \<open>
  Lines 120 to 142: the validation of the arguments and the building of the
  parameters. The result is the address of the dictionary to send, or the exception
  raised; the world is returned as the statements executed so far left it. An
  argument the caller omits is passed here with its default: \<open>limit=10\<close>,
  \<open>time=None\<close>, \<open>direction="backward"\<close>, \<open>params=None\<close>.
\<close>

definition query_params ::
  "pyval \<Rightarrow> pyval \<Rightarrow> pyval \<Rightarrow> pyval \<Rightarrow> addr option \<Rightarrow> world \<Rightarrow> (exn + addr) \<times> world" where
  "query_params q limit time direction params w0 =
     (let (p, w1) = params_or_new params w0 in
      if truthy q then
        if \<not> isinstance_str q then (Inl (TypeError (Incorrect_query_type q)), w1)
        else
          (let w2 = setitem p ''query'' q w1;
               w3 = (if truthy time then setitem p ''time'' time w2 else w2);
               w4 = (if truthy limit then setitem p ''limit'' limit w3 else w3)
           in if direction \<notin> set direction_supported_values
              then (Inl (ValueError (Invalid_direction direction)), w4)
              else (Inr p, setitem p ''direction'' direction w4))
      else (Inl (ValueError Query_empty), w1))"

text \<open>Lines 144 to 154: the request, the status check and the decoding.\<close>

definition query ::
  "'j env \<Rightarrow> pyval \<Rightarrow> pyval \<Rightarrow> pyval \<Rightarrow> pyval \<Rightarrow> addr option \<Rightarrow> world \<Rightarrow> (exn + 'j) \<times> world" where
  "query env q limit time direction params w0 =
     (case query_params q limit time direction params w0 of
        (Inl e, w1) \<Rightarrow> (Inl e, w1)
      | (Inr p, w1) \<Rightarrow>
          (let (res, w2) = session_get_call env (get_request ''/loki/api/v1/query'' p w1) w1
           in case res of
                Inl e \<Rightarrow> (Inl e, w2)
              | Inr response \<Rightarrow>
                  (case (if \<not> ignore_http_errors (self w2) then raise_for_status response
                         else None) of
                     Some e \<Rightarrow> (Inl e, w2)
                   | None \<Rightarrow> (json env response, w2))))"

text \<open>The contents of the dictionary the caller passes as \<open>params\<close>, if any.\<close>

definition caller_params :: "world \<Rightarrow> addr option \<Rightarrow> dict" where
  "caller_params w params = (case params of None \<Rightarrow> [] | Some a \<Rightarrow> heap w ! a)"

text \<open>The keys that \<open>query\<close> assigns.\<close>

definition named_keys :: "string set" where
  "named_keys = {''query'', ''time'', ''limit'', ''direction''}"

subsection \<open>Sequences of calls\<close>

text \<open>
  A caller that makes one call after the other on the same client, going on after an
  exception as after a result.
\<close>

datatype call = Ready "addr option" | Query pyval pyval pyval pyval "addr option"

fun run_call :: "'j env \<Rightarrow> call \<Rightarrow> world \<Rightarrow> world" where
  "run_call env (Ready params) w = snd (ready env params w)"
| "run_call env (Query q limit time direction params) w =
     snd (query env q limit time direction params w)"

fun run_calls :: "'j env \<Rightarrow> call list \<Rightarrow> world \<Rightarrow> world" where
  "run_calls env [] w = w"
| "run_calls env (c # cs) w = run_calls env cs (run_call env c w)"

text \<open>The call is a \<open>query\<close> with the dictionary at \<open>a\<close> as its \<open>params\<close>.\<close>

fun query_on :: "call \<Rightarrow> addr \<Rightarrow> bool" where
  "query_on (Ready params) a = False"
| "query_on (Query q limit time direction params) a = (params = Some a)"

subsection \<open>Concrete inputs\<close>

text \<open>
  The client that the constructor builds from the defaults, before any exchange.
\<close>

definition client0 :: loki_connect where
  "client0 =
     \<lparr>headers = None, url = ''http://127.0.0.1:3100'', loki_host = ''127.0.0.1:3100'',
      all_metrics = PNone, ssl_verification = True, ignore_http_errors = False,
      session = \<lparr>mount_prefix = ''http://127.0.0.1:3100'',
                 max_retries = \<lparr>retry_total = 3, retry_backoff_factor = 1,
                                retry_status_forcelist = [408, 429, 500, 502, 503, 504]\<rparr>\<rparr>\<rparr>"

definition world0 :: world where
  "world0 = \<lparr>self = client0, heap = [], sent = [], exchanges = 0\<rparr>"

text \<open>A caller that holds one dictionary, with two entries, at address 0.\<close>

definition world1 :: world where
  "world1 =
     \<lparr>self = client0, heap = [[(''limit'', PInt 5), (''step'', PStr ''30s'')]], sent = [],
      exchanges = 0\<rparr>"

text \<open>
  A client whose header map is the dictionary at address 0, and a second dictionary,
  at address 1, for the caller to pass as \<open>params\<close>.
\<close>

definition world2 :: world where
  "world2 =
     \<lparr>self = client0\<lparr>headers := Some 0\<rparr>,
      heap = [[(''X-Scope-OrgID'', PStr ''tenant1'')], [(''step'', PStr ''30s'')]],
      sent = [], exchanges = 0\<rparr>"

text \<open>
  A decoder that accepts exactly the body \<open>{}\<close>. A host that answers every exchange
  with the given status and body, without a \<open>Retry-After\<close> header; the same with the
  header; and a host that cannot be reached. What \<open>session.get\<close> makes of the answers
  is up to the client's retry policy.
\<close>

definition decode_sample :: "string \<Rightarrow> string option" where
  "decode_sample s = (if s = ''{}'' then Some ''empty object'' else None)"

definition server :: "int \<Rightarrow> string \<Rightarrow> string env" where
  "server status body =
     \<lparr>wire = (\<lambda>n req. Some \<lparr>status_code = status, resp_body = body, retry_after = False\<rparr>),
      json_loads = decode_sample\<rparr>"

definition server_retry_after :: "int \<Rightarrow> string \<Rightarrow> string env" where
  "server_retry_after status body =
     \<lparr>wire = (\<lambda>n req. Some \<lparr>status_code = status, resp_body = body, retry_after = True\<rparr>),
      json_loads = decode_sample\<rparr>"

definition unreachable :: "string env" where
  "unreachable = \<lparr>wire = (\<lambda>n req. None), json_loads = decode_sample\<rparr>"

text \<open>
  \<open>urlparse(url).netloc\<close> on the URLs used below: the default URL has the host
  \<open>127.0.0.1:3100\<close>, and \<open>http://[\<close> is rejected with \<open>ValueError\<close>
  (\<open>Invalid IPv6 URL\<close>: a bracket that is not closed). No other URL is used.
\<close>

definition urlparse_sample :: "string \<Rightarrow> string option" where
  "urlparse_sample u =
     (if u = ''http://127.0.0.1:3100'' then Some ''127.0.0.1:3100''
      else if u = ''http://['' then None
      else Some [])"

section \<open>Properties\<close>

subsection \<open>Helper lemmas\<close>

lemma sent_params_or_new: "sent (snd (params_or_new params w)) = sent w"
  by (simp add: params_or_new_def split: option.splits)

lemma sent_setitem: "sent (setitem a k v w) = sent w"
  by (simp add: setitem_def)

lemma self_params_or_new: "self (snd (params_or_new params w)) = self w"
  by (simp add: params_or_new_def split: option.splits)

lemma self_setitem: "self (setitem a k v w) = self w"
  by (simp add: setitem_def)

lemma exchanges_params_or_new: "exchanges (snd (params_or_new params w)) = exchanges w"
  by (simp add: params_or_new_def split: option.splits)

lemma exchanges_setitem: "exchanges (setitem a k v w) = exchanges w"
  by (simp add: setitem_def)

lemma exchanges_query_params:
  "exchanges (snd (query_params q limit time direction params w)) = exchanges w"
proof -
  obtain p w1 where pw: "params_or_new params w = (p, w1)"
    by (cases "params_or_new params w")
  then have "exchanges w1 = exchanges w"
    using exchanges_params_or_new [of params w] by simp
  with pw show ?thesis
    by (simp add: query_params_def Let_def exchanges_setitem)
qed

lemma sent_query_params: "sent (snd (query_params q limit time direction params w)) = sent w"
proof -
  obtain p w1 where pw: "params_or_new params w = (p, w1)"
    by (cases "params_or_new params w")
  then have "sent w1 = sent w"
    using sent_params_or_new [of params w] by simp
  with pw show ?thesis
    by (simp add: query_params_def Let_def sent_setitem)
qed

lemma self_query_params: "self (snd (query_params q limit time direction params w)) = self w"
proof -
  obtain p w1 where pw: "params_or_new params w = (p, w1)"
    by (cases "params_or_new params w")
  then have "self w1 = self w"
    using self_params_or_new [of params w] by simp
  with pw show ?thesis
    by (simp add: query_params_def Let_def self_setitem)
qed

lemma query_Inl:
  "query_params q limit time direction params w = (Inl e, w1) \<Longrightarrow>
   query env q limit time direction params w = (Inl e, w1)"
  by (simp add: query_def)

lemma query_params_invalid:
  assumes "\<not> truthy q \<or> \<not> isinstance_str q"
  shows "query_params q limit time direction params w =
          (Inl (if truthy q then TypeError (Incorrect_query_type q) else ValueError Query_empty),
           snd (params_or_new params w))"
  using assms by (auto simp add: query_params_def split: prod.splits)

lemma query_invalid:
  assumes "\<not> truthy q \<or> \<not> isinstance_str q"
  shows "query env q limit time direction params w =
          (Inl (if truthy q then TypeError (Incorrect_query_type q) else ValueError Query_empty),
           snd (params_or_new params w))"
  using query_Inl [OF query_params_invalid [OF assms]] .

lemma ready_unfold:
  "ready env params w =
     (case fst (session_get env (self w) (exchanges w)
                 (get_request ''/ready'' (fst (params_or_new params w))
                    (snd (params_or_new params w)))) of
        Inl e \<Rightarrow> Inl e
      | Inr response \<Rightarrow> Inr (ok response),
      (snd (params_or_new params w))
        \<lparr>sent := sent w @
           [get_request ''/ready'' (fst (params_or_new params w)) (snd (params_or_new params w))],
         exchanges := snd (session_get env (self w) (exchanges w)
                 (get_request ''/ready'' (fst (params_or_new params w))
                    (snd (params_or_new params w))))\<rparr>)"
proof -
  obtain p w1 where pw: "params_or_new params w = (p, w1)"
    by (cases "params_or_new params w")
  then have "sent w1 = sent w" and "self w1 = self w" and "exchanges w1 = exchanges w"
    using sent_params_or_new [of params w] self_params_or_new [of params w]
      exchanges_params_or_new [of params w] by simp_all
  with pw show ?thesis
    by (simp add: ready_def session_get_call_def split: sum.splits prod.splits)
qed

lemma ok_iff: "ok r = (\<not> (400 \<le> status_code r \<and> status_code r < 600))"
  by (auto simp add: ok_def raise_for_status_def)

lemma params_or_new_cases:
  assumes "valid_ref w params"
  shows "(params_or_new params w = (length (heap w), w\<lparr>heap := heap w @ [[]]\<rparr>)
            \<and> caller_params w params = [])
         \<or> (\<exists>a. params = Some a \<and> a < length (heap w) \<and> heap w ! a \<noteq> []
                \<and> params_or_new params w = (a, w))"
  using assms
  by (auto simp add: params_or_new_def valid_ref_def caller_params_def split: option.splits)

lemma params_or_new_target:
  assumes "valid_ref w params"
  shows "fst (params_or_new params w) < length (heap (snd (params_or_new params w)))
         \<and> heap (snd (params_or_new params w)) ! fst (params_or_new params w)
             = caller_params w params"
  using params_or_new_cases [OF assms] by (auto simp add: caller_params_def)

lemma heap_setitem_same:
  "a < length (heap w) \<Longrightarrow> heap (setitem a k v w) ! a = AList.update k v (heap w ! a)"
  by (simp add: setitem_def)

lemma heap_setitem_other:
  "b \<noteq> a \<Longrightarrow> heap (setitem a k v w) ! b = heap w ! b"
  by (simp add: setitem_def)

lemma length_heap_setitem: "length (heap (setitem a k v w)) = length (heap w)"
  by (simp add: setitem_def)

lemma query_params_valid:
  assumes "truthy q" and "isinstance_str q" and "direction \<in> set direction_supported_values"
  shows "query_params q limit time direction params w =
           (Inr (fst (params_or_new params w)),
            snd (query_params q limit time direction params w))"
  using assms by (simp add: query_params_def Let_def split: prod.splits)

lemma query_params_lookup:
  assumes "valid_ref w params"
    and "truthy q" and "isinstance_str q" and "direction \<in> set direction_supported_values"
  shows "map_of (heap (snd (query_params q limit time direction params w))
                  ! fst (params_or_new params w)) k =
           (if k = ''direction'' then Some direction
            else if k = ''limit'' \<and> truthy limit then Some limit
            else if k = ''time'' \<and> truthy time then Some time
            else if k = ''query'' then Some q
            else map_of (caller_params w params) k)"
proof -
  obtain p w1 where pw: "params_or_new params w = (p, w1)"
    by (cases "params_or_new params w")
  with params_or_new_target [OF assms(1)]
  have p: "p < length (heap w1)" and c: "heap w1 ! p = caller_params w params"
    by simp_all
  show ?thesis
    using assms(2-4) pw p c
    by (simp add: query_params_def Let_def heap_setitem_same length_heap_setitem update_conv')
qed

lemma query_valid_unfold:
  assumes "truthy q" and "isinstance_str q" and "direction \<in> set direction_supported_values"
  shows "query env q limit time direction params w =
     (case fst (session_get env (self w) (exchanges w)
             (get_request ''/loki/api/v1/query'' (fst (params_or_new params w))
                (snd (query_params q limit time direction params w)))) of
        Inl e \<Rightarrow> Inl e
      | Inr response \<Rightarrow>
          (case (if \<not> ignore_http_errors (self w) then raise_for_status response else None) of
             Some e \<Rightarrow> Inl e
           | None \<Rightarrow> json env response),
      (snd (query_params q limit time direction params w))
        \<lparr>sent := sent w @
           [get_request ''/loki/api/v1/query'' (fst (params_or_new params w))
              (snd (query_params q limit time direction params w))],
         exchanges := snd (session_get env (self w) (exchanges w)
             (get_request ''/loki/api/v1/query'' (fst (params_or_new params w))
                (snd (query_params q limit time direction params w))))\<rparr>)"
proof -
  obtain w' where qp: "query_params q limit time direction params w
        = (Inr (fst (params_or_new params w)), w')"
    using query_params_valid [OF assms] by blast
  have "sent w' = sent w" and "self w' = self w" and "exchanges w' = exchanges w"
    using sent_query_params [of q limit time direction params w]
      self_query_params [of q limit time direction params w]
      exchanges_query_params [of q limit time direction params w] qp by simp_all
  moreover obtain res n where "session_get env (self w) (exchanges w)
      (get_request ''/loki/api/v1/query'' (fst (params_or_new params w)) w') = (res, n)"
    by (cases "session_get env (self w) (exchanges w)
      (get_request ''/loki/api/v1/query'' (fst (params_or_new params w)) w')")
  ultimately show ?thesis
    using qp by (simp add: query_def session_get_call_def split: sum.splits option.splits)
qed

lemma heap_ready: "heap (snd (ready env params w)) = heap (snd (params_or_new params w))"
  by (simp add: ready_unfold)

lemma self_ready: "self (snd (ready env params w)) = self w"
  by (simp add: ready_unfold self_params_or_new)

lemma heap_session_get_call: "heap (snd (session_get_call env req w)) = heap w"
  by (simp add: session_get_call_def split: prod.splits)

lemma self_session_get_call: "self (snd (session_get_call env req w)) = self w"
  by (simp add: session_get_call_def split: prod.splits)

lemma query_world:
  "snd (query env q limit time direction params w)
     = snd (query_params q limit time direction params w)
   \<or> (\<exists>req. snd (query env q limit time direction params w)
         = snd (session_get_call env req (snd (query_params q limit time direction params w))))"
proof (cases "query_params q limit time direction params w")
  case (Pair res w1)
  show ?thesis
  proof (cases res)
    case (Inl e)
    with Pair show ?thesis by (simp add: query_def)
  next
    case (Inr p)
    obtain res' w2
      where g: "session_get_call env (get_request ''/loki/api/v1/query'' p w1) w1 = (res', w2)"
      by (cases "session_get_call env (get_request ''/loki/api/v1/query'' p w1) w1")
    have "snd (query env q limit time direction params w) = w2"
      using Pair Inr g by (simp add: query_def split: sum.splits option.splits)
    with Pair g show ?thesis
      by (metis snd_conv)
  qed
qed

lemma heap_query:
  "heap (snd (query env q limit time direction params w))
     = heap (snd (query_params q limit time direction params w))"
  using query_world [of env q limit time direction params w]
  by (auto simp add: heap_session_get_call)

lemma self_query: "self (snd (query env q limit time direction params w)) = self w"
  using query_world [of env q limit time direction params w]
  by (auto simp add: self_session_get_call self_query_params)

lemma heap_params_or_new_old:
  "a < length (heap w) \<Longrightarrow> heap (snd (params_or_new params w)) ! a = heap w ! a"
  by (simp add: params_or_new_def nth_append split: option.splits)

lemma length_heap_params_or_new:
  "length (heap w) \<le> length (heap (snd (params_or_new params w)))"
  by (simp add: params_or_new_def split: option.splits)

lemma params_or_new_not_other:
  "a < length (heap w) \<Longrightarrow> params \<noteq> Some a \<or> heap w ! a = [] \<Longrightarrow>
   fst (params_or_new params w) \<noteq> a"
  by (auto simp add: params_or_new_def split: option.splits)

lemma heap_query_params_other:
  assumes "a \<noteq> fst (params_or_new params w)"
  shows "heap (snd (query_params q limit time direction params w)) ! a
           = heap (snd (params_or_new params w)) ! a"
proof -
  obtain p w1 where pw: "params_or_new params w = (p, w1)"
    by (cases "params_or_new params w")
  with assms have "a \<noteq> p" by simp
  with pw show ?thesis
    by (simp add: query_params_def Let_def heap_setitem_other)
qed

lemma length_heap_query_params:
  "length (heap (snd (query_params q limit time direction params w)))
     = length (heap (snd (params_or_new params w)))"
proof -
  obtain p w1 where pw: "params_or_new params w = (p, w1)"
    by (cases "params_or_new params w")
  then show ?thesis
    by (simp add: query_params_def Let_def length_heap_setitem)
qed

lemma heap_query_params_target:
  assumes "fst (params_or_new params w) < length (heap (snd (params_or_new params w)))"
  shows "(\<forall>k. k \<notin> named_keys \<longrightarrow>
            map_of (heap (snd (query_params q limit time direction params w))
                      ! fst (params_or_new params w)) k
            = map_of (heap (snd (params_or_new params w)) ! fst (params_or_new params w)) k)
         \<and> fst ` set (heap (snd (params_or_new params w)) ! fst (params_or_new params w))
            \<subseteq> fst ` set (heap (snd (query_params q limit time direction params w))
                      ! fst (params_or_new params w))"
proof -
  obtain p w1 where pw: "params_or_new params w = (p, w1)"
    by (cases "params_or_new params w")
  with assms have p: "p < length (heap w1)" by simp
  show ?thesis
    using pw p
    by (auto simp add: query_params_def Let_def heap_setitem_same length_heap_setitem
        update_conv' dom_update named_keys_def)
qed

lemma heap_query_old:
  assumes "a < length (heap w)" and "params \<noteq> Some a \<or> heap w ! a = []"
  shows "heap (snd (query env q limit time direction params w)) ! a = heap w ! a"
proof -
  have "fst (params_or_new params w) \<noteq> a"
    using assms by (rule params_or_new_not_other)
  then have "heap (snd (query_params q limit time direction params w)) ! a
      = heap (snd (params_or_new params w)) ! a"
    using heap_query_params_other [of a params w] by simp
  with assms(1) show ?thesis
    by (simp add: heap_query heap_params_or_new_old)
qed

lemma length_heap_query:
  "length (heap w) \<le> length (heap (snd (query env q limit time direction params w)))"
  by (simp add: heap_query length_heap_query_params length_heap_params_or_new)

lemma run_call_frame:
  assumes "a < length (heap w)" and "\<not> query_on c a"
  shows "heap (run_call env c w) ! a = heap w ! a
         \<and> length (heap w) \<le> length (heap (run_call env c w))"
proof (cases c)
  case (Ready params)
  with assms(1) show ?thesis
    by (simp add: heap_ready heap_params_or_new_old length_heap_params_or_new)
next
  case (Query q limit time direction params)
  with assms(2) have "params \<noteq> Some a \<or> heap w ! a = []" by simp
  with assms(1) have "heap (snd (query env q limit time direction params w)) ! a = heap w ! a"
    by (rule heap_query_old)
  with Query show ?thesis
    by (simp add: length_heap_query)
qed

lemma self_run_call: "self (run_call env c w) = self w"
  by (cases c) (simp_all add: self_ready self_query)

lemma self_run_calls: "self (run_calls env cs w) = self w"
  by (induction cs arbitrary: w) (simp_all add: self_run_call)

lemma heap_run_calls:
  "a < length (heap w) \<Longrightarrow> \<forall>c\<in>set cs. \<not> query_on c a \<Longrightarrow>
   heap (run_calls env cs w) ! a = heap w ! a"
proof (induction cs arbitrary: w)
  case Nil
  then show ?case by simp
next
  case (Cons c cs)
  from Cons.prems have f: "heap (run_call env c w) ! a = heap w ! a"
    and l: "a < length (heap (run_call env c w))"
    using run_call_frame [of a w c env] by auto
  from Cons.prems have "\<forall>c\<in>set cs. \<not> query_on c a" by simp
  with Cons.IH [OF l] f show ?case by simp
qed

lemma query_params_written:
  assumes "a < length (heap w)" and "heap w ! a \<noteq> []" and "truthy q" and "isinstance_str q"
  shows "map_of (heap (snd (query_params q limit time direction (Some a) w)) ! a) k =
           (if k = ''direction'' \<and> direction \<in> set direction_supported_values
            then Some direction
            else if k = ''limit'' \<and> truthy limit then Some limit
            else if k = ''time'' \<and> truthy time then Some time
            else if k = ''query'' then Some q
            else map_of (heap w ! a) k)"
  using assms
  by (simp add: query_params_def params_or_new_def Let_def heap_setitem_same
      length_heap_setitem update_conv')

lemma ready_of_response:
  assumes "fst (session_get env (self w) (exchanges w)
             (last (sent (snd (ready env params w))))) = Inr r"
  shows "fst (ready env params w) = Inr (\<not> (400 \<le> status_code r \<and> status_code r < 600))"
proof -
  have "last (sent (snd (ready env params w)))
          = get_request ''/ready'' (fst (params_or_new params w)) (snd (params_or_new params w))"
    by (simp add: ready_unfold)
  with assms have "fst (ready env params w) = Inr (ok r)"
    by (simp add: ready_unfold)
  then show ?thesis
    by (simp add: ok_iff)
qed

lemmas run_defs =
  query_def query_params_def ready_def params_or_new_def setitem_def get_request_def
  session_get_call_def raise_for_status_def ok_def json_def direction_supported_values_def
  world0_def world1_def world2_def client0_def server_def valid_ref_def caller_params_def
  session_get_def urlopen.simps is_retry_def RETRY_AFTER_STATUS_CODES_def decode_sample_def
  server_retry_after_def unreachable_def

subsection \<open>Validation of the query argument\<close>

text \<open>
  C3: a call of \<open>query\<close> whose query argument is falsy (empty, \<open>None\<close>) or not a string
  fails with \<open>ValueError\<close> or \<open>TypeError\<close>, the two exceptions the spec calls
  InvalidArgument, and no request is issued: the log of requests is as before.
\<close>

theorem query_invalid_query_fails:
  assumes "\<not> truthy q \<or> \<not> isinstance_str q"
  shows "(fst (query env q limit time direction params w) = Inl (ValueError Query_empty)
          \<or> fst (query env q limit time direction params w) = Inl (TypeError (Incorrect_query_type q)))
         \<and> sent (snd (query env q limit time direction params w)) = sent w"
  using assms by (simp add: query_invalid sent_params_or_new)

theorem query_invalid_query_fails_witness:
  "\<not> truthy (PStr '''')
   \<and> fst (query (server 200 ''{}'') (PStr '''') (PInt 10) PNone (PStr ''backward'') None world0)
       = Inl (ValueError Query_empty)
   \<and> sent (snd (query (server 200 ''{}'') (PStr '''') (PInt 10) PNone (PStr ''backward'') None world0))
       = []"
  using query_invalid_query_fails [of "PStr ''''" "server 200 ''{}''" "PInt 10" PNone
      "PStr ''backward''" None world0]
  by (simp add: run_defs)



subsection \<open>Validation of the direction argument\<close>

text \<open>
  C4: with a non-empty query string and a direction that is neither \<open>"backward"\<close> nor
  \<open>"forward"\<close>, \<open>query\<close> fails with \<open>ValueError\<close> on the direction and issues no
  request.
\<close>

theorem query_invalid_direction_fails:
  assumes "truthy q" and "isinstance_str q"
    and "direction \<notin> set direction_supported_values"
  shows "fst (query env q limit time direction params w) = Inl (ValueError (Invalid_direction direction))
         \<and> sent (snd (query env q limit time direction params w)) = sent w"
proof -
  have "fst (query_params q limit time direction params w)
          = Inl (ValueError (Invalid_direction direction))"
    using assms by (simp add: query_params_def Let_def split: prod.splits)
  then obtain w1 where qp: "query_params q limit time direction params w
          = (Inl (ValueError (Invalid_direction direction)), w1)"
    by (cases "query_params q limit time direction params w") simp
  have "sent w1 = sent w"
    using sent_query_params [of q limit time direction params w] qp by simp
  with query_Inl [OF qp, of env] show ?thesis by simp
qed

theorem query_invalid_direction_fails_witness:
  "truthy (PStr ''{app=loki}'') \<and> isinstance_str (PStr ''{app=loki}'')
   \<and> PStr ''sideways'' \<notin> set direction_supported_values
   \<and> fst (query (server 200 ''{}'') (PStr ''{app=loki}'') (PInt 10) PNone (PStr ''sideways'') None world0)
       = Inl (ValueError (Invalid_direction (PStr ''sideways'')))
   \<and> sent (snd (query (server 200 ''{}'') (PStr ''{app=loki}'') (PInt 10) PNone (PStr ''sideways'') None world0))
       = []"
  using query_invalid_direction_fails [where q = "PStr ''{app=loki}''" and env = "server 200 ''{}''" and limit = "PInt 10" and time = PNone and direction = "PStr ''sideways''" and params = None and w = world0]
  by (simp add: direction_supported_values_def world0_def)

subsection \<open>Readiness\<close>

text \<open>
  C5: the docstring of \<open>ready\<close> promises \<open>False\<close> when the endpoint is not ready, and
  Loki answers \<open>/ready\<close> with 503 while it is not ready. On the client that the
  constructor builds from the defaults, 503 is one of the statuses of the retry
  policy: the session repeats the request and, the answer staying 503, raises
  \<open>RetryError\<close>, which \<open>ready\<close> lets through. So \<open>ready\<close> raises where the docstring
  and the claim have it return false. A status outside the retry policy does reach
  \<open>ready\<close>, which then returns \<open>response.ok\<close>: false for 404, true for 200.
\<close>

theorem ready_not_ready_raises:
  "init urlparse_sample (Some ''http://127.0.0.1:3100'') None False None False = Inr (self world0)
   \<and> \<not> ignore_http_errors (self world0)
   \<and> fst (ready (server 503 ''Ingester not ready'') None world0) = Inl RetryError
   \<and> fst (ready (server 404 ''404 page not found'') None world0) = Inr False
   \<and> fst (ready (server 200 ''ready'') None world0) = Inr True"
  by (simp add: run_defs init_def urlparse_sample_def MAX_REQUEST_RETRIES_def
      RETRY_BACKOFF_FACTOR_def RETRY_ON_STATUS_def)

subsection \<open>Construction\<close>

text \<open>
  C7: the module's comments say of \<open>MAX_REQUEST_RETRIES = 3\<close> "In case of a
  connection failure try 2 more times", three attempts in all, and of
  \<open>RETRY_ON_STATUS\<close> "retry only on these status". The constructor stores the three
  constants in the \<open>Retry\<close> of a client built without a retry policy, but it passes
  the 3 as \<open>total\<close>, which counts the retries after the first attempt: with a host
  that cannot be reached, and with one that keeps answering 503, the default client
  makes four exchanges before it gives up, not three. And a status that is not in the
  list, 413, is retried as well when the response has a \<open>Retry-After\<close> header.
\<close>

theorem default_retry_four_attempts:
  "init urlparse_sample (Some ''http://127.0.0.1:3100'') None False None False = Inr (self world0)
   \<and> max_retries (session (self world0))
       = \<lparr>retry_total = 3, retry_backoff_factor = 1,
          retry_status_forcelist = [408, 429, 500, 502, 503, 504]\<rparr>
   \<and> exchanges world0 = 0
   \<and> fst (ready unreachable None world0) = Inl ConnectionError
   \<and> exchanges (snd (ready unreachable None world0)) = 4
   \<and> fst (query (server 503 ''{}'') (PStr ''{app=loki}'') (PInt 10) PNone (PStr ''backward'')
          None world0) = Inl RetryError
   \<and> exchanges (snd (query (server 503 ''{}'') (PStr ''{app=loki}'') (PInt 10) PNone
          (PStr ''backward'') None world0)) = 4
   \<and> exchanges (snd (ready (server_retry_after 413 ''too large'') None world0)) = 4
   \<and> exchanges (snd (ready (server 413 ''too large'') None world0)) = 1"
  by (simp add: run_defs init_def urlparse_sample_def MAX_REQUEST_RETRIES_def
      RETRY_BACKOFF_FACTOR_def RETRY_ON_STATUS_def)

text \<open>
  C8, as stated, fails: a URL that is not \<open>None\<close> can still make the constructor
  fail, because \<open>urlparse\<close> raises \<open>ValueError\<close> on it. \<open>LokiConnect(url="http://[")\<close>
  does not construct a client.
\<close>

theorem init_rejected_url_counterexample:
  "init urlparse_sample (Some ''http://['') None False None False = Inl (ValueError Urlparse_rejected)"
  by (simp add: init_def urlparse_sample_def)

text \<open>
  C8, amended: the constructor fails with \<open>TypeError("missing url")\<close> if and only if
  the URL is \<open>None\<close>; for a URL string the construction succeeds exactly when
  \<open>urlparse\<close> accepts the URL, as it does the default one.
\<close>

theorem init_missing_url:
  "(init urlparse_netloc url_arg headers_arg disable_ssl retry_arg ignore_arg
      = Inl (TypeError Missing_url)) = (url_arg = None)
   \<and> (\<forall>u. url_arg = Some u \<longrightarrow>
        ((\<exists>c. init urlparse_netloc url_arg headers_arg disable_ssl retry_arg ignore_arg = Inr c)
          \<longleftrightarrow> urlparse_netloc u \<noteq> None))"
  by (auto simp add: init_def Let_def split: option.splits)

theorem init_missing_url_witness:
  "init urlparse_sample None None False None False = Inl (TypeError Missing_url)
   \<and> init urlparse_sample (Some ''http://127.0.0.1:3100'') None False None False = Inr client0
   \<and> urlparse_sample ''http://127.0.0.1:3100'' \<noteq> None"
  using init_missing_url [where urlparse_netloc = urlparse_sample and url_arg = None
      and headers_arg = None and disable_ssl = False and retry_arg = None and ignore_arg = False]
    init_missing_url [where urlparse_netloc = urlparse_sample
      and url_arg = "Some ''http://127.0.0.1:3100''"
      and headers_arg = None and disable_ssl = False and retry_arg = None and ignore_arg = False]
  by (simp add: init_def urlparse_sample_def client0_def MAX_REQUEST_RETRIES_def
        RETRY_BACKOFF_FACTOR_def RETRY_ON_STATUS_def)

subsection \<open>The parameters of the query request\<close>

text \<open>
  C1, as stated, fails: the request can carry \<open>limit\<close> although the \<open>limit\<close> argument
  is falsy, because the caller's extra parameters have the key and nothing removes
  it. With \<open>params={"limit": 5, "step": "30s"}\<close> and \<open>limit=0\<close> the request is
  sent with \<open>limit=5\<close>.
\<close>

theorem query_limit_from_extra_counterexample:
  "map_of (req_params (last (sent (snd
      (query (server 200 ''{}'') (PStr ''{app=loki}'') (PInt 0) PNone (PStr ''backward'')
         (Some 0) world1))))) ''limit'' = Some (PInt 5)
   \<and> \<not> truthy (PInt 0)"
  by (simp add: run_defs world1_def)

text \<open>
  C1, amended: a call of \<open>query\<close> that passes validation issues one request, to
  \<open>/loki/api/v1/query\<close>, whose parameters map \<open>query\<close> to the query argument and
  \<open>direction\<close> to the direction argument; \<open>limit\<close> is mapped to the limit argument
  when that is truthy, and \<open>time\<close> to the time argument when that is truthy; every
  other key, and \<open>limit\<close> and \<open>time\<close> when their argument is falsy, has the value
  the caller's extra parameters give it, and is absent if they give none.
\<close>

theorem query_request_params:
  assumes "valid_ref w params"
    and "truthy q" and "isinstance_str q" and "direction \<in> set direction_supported_values"
  shows "sent (snd (query env q limit time direction params w))
           = sent w @ [last (sent (snd (query env q limit time direction params w)))]
         \<and> req_url (last (sent (snd (query env q limit time direction params w))))
           = url (self w) @ ''/loki/api/v1/query''
         \<and> (\<forall>k. map_of (req_params (last (sent (snd (query env q limit time direction params w))))) k =
              (if k = ''direction'' then Some direction
               else if k = ''limit'' \<and> truthy limit then Some limit
               else if k = ''time'' \<and> truthy time then Some time
               else if k = ''query'' then Some q
               else map_of (caller_params w params) k))"
proof -
  have "self (snd (query_params q limit time direction params w)) = self w"
    by (rule self_query_params)
  then show ?thesis
    using query_params_lookup [OF assms]
    by (simp add: query_valid_unfold [OF assms(2-4)] get_request_def)
qed

theorem query_request_params_witness:
  "valid_ref world1 (Some 0) \<and> valid_ref world0 None
   \<and> truthy (PStr ''{app=loki}'') \<and> isinstance_str (PStr ''{app=loki}'')
   \<and> PStr ''forward'' \<in> set direction_supported_values
   \<and> map_of (req_params (last (sent (snd
         (query (server 200 ''{}'') (PStr ''{app=loki}'') (PInt 25) PNone (PStr ''forward'')
            (Some 0) world1))))) ''limit'' = Some (PInt 25)
   \<and> map_of (req_params (last (sent (snd
         (query (server 200 ''{}'') (PStr ''{app=loki}'') (PInt 25) PNone (PStr ''forward'')
            (Some 0) world1))))) ''step'' = Some (PStr ''30s'')
   \<and> map_of (req_params (last (sent (snd
         (query (server 200 ''{}'') (PStr ''{app=loki}'') (PInt 0) PNone (PStr ''forward'')
            None world0))))) ''limit'' = None
   \<and> map_of (req_params (last (sent (snd
         (query (server 200 ''{}'') (PStr ''{app=loki}'') (PInt 0) PNone (PStr ''forward'')
            None world0))))) ''query'' = Some (PStr ''{app=loki}'')"
proof -
  have v1: "valid_ref world1 (Some 0)" and v0: "valid_ref world0 None"
    by (simp_all add: valid_ref_def world1_def)
  have t: "truthy (PStr ''{app=loki}'')" and i: "isinstance_str (PStr ''{app=loki}'')"
    and d: "PStr ''forward'' \<in> set direction_supported_values"
    by (simp_all add: direction_supported_values_def)
  show ?thesis
    using v1 v0 t i d
      query_request_params [OF v1 t i d, where env = "server 200 ''{}''" and limit = "PInt 25"
        and time = PNone]
      query_request_params [OF v0 t i d, where env = "server 200 ''{}''" and limit = "PInt 0"
        and time = PNone]
    by (simp add: caller_params_def world1_def)
qed

subsection \<open>The status check and the decoding\<close>

text \<open>
  C2, as stated, fails: with \<open>ignore_http_errors\<close> false, a response whose status is
  not 2xx but is no client or server error either, such as 300, raises nothing;
  its body is decoded and returned.
\<close>

theorem query_status_300_counterexample:
  "\<not> ignore_http_errors (self world0)
   \<and> fst (query (server 300 ''{}'') (PStr ''{app=loki}'') (PInt 10) PNone (PStr ''backward'')
          None world0) = Inr ''empty object''"
  by (simp add: run_defs)

text \<open>
  C2, amended: when \<open>query\<close> has issued its request and got a response, then with
  \<open>ignore_http_errors\<close> false a status from 400 to 599 fails with \<open>HTTPError\<close>
  carrying the response; with any other status, and with every status when the flag
  is true, the result is the body decoded as JSON, or \<open>JSONDecodeError\<close> when the body
  is not valid JSON.
\<close>

theorem query_status_and_decoding:
  assumes "truthy q" and "isinstance_str q" and "direction \<in> set direction_supported_values"
    and "fst (session_get env (self w) (exchanges w)
           (last (sent (snd (query env q limit time direction params w))))) = Inr r"
  shows "fst (query env q limit time direction params w) =
           (if \<not> ignore_http_errors (self w) \<and> 400 \<le> status_code r \<and> status_code r < 600
            then Inl (HTTPError r)
            else case json_loads env (resp_body r) of
                   None \<Rightarrow> Inl JSONDecodeError
                 | Some j \<Rightarrow> Inr j)"
proof -
  have "last (sent (snd (query env q limit time direction params w)))
          = get_request ''/loki/api/v1/query'' (fst (params_or_new params w))
              (snd (query_params q limit time direction params w))"
    by (simp add: query_valid_unfold [OF assms(1-3)])
  with assms(4) show ?thesis
    by (auto simp add: query_valid_unfold [OF assms(1-3)] raise_for_status_def json_def)
qed

theorem query_status_and_decoding_witness:
  "fst (query (server 404 ''{}'') (PStr ''{app=loki}'') (PInt 10) PNone (PStr ''backward'')
          None world0)
     = Inl (HTTPError \<lparr>status_code = 404, resp_body = ''{}'', retry_after = False\<rparr>)
   \<and> fst (query (server 404 ''{}'') (PStr ''{app=loki}'') (PInt 10) PNone (PStr ''backward'')
          None (world0\<lparr>self := client0\<lparr>ignore_http_errors := True\<rparr>\<rparr>))
     = Inr ''empty object''
   \<and> fst (query (server 200 ''<html>'') (PStr ''{app=loki}'') (PInt 10) PNone (PStr ''backward'')
          None world0)
     = Inl JSONDecodeError"
proof -
  have t: "truthy (PStr ''{app=loki}'')" and i: "isinstance_str (PStr ''{app=loki}'')"
    and d: "PStr ''backward'' \<in> set direction_supported_values"
    by (simp_all add: direction_supported_values_def)
  have g404: "\<And>c n rq. retry_status_forcelist (max_retries (session c)) = [408, 429, 500, 502, 503, 504]
      \<Longrightarrow> fst (session_get (server 404 ''{}'') c n rq)
        = Inr \<lparr>status_code = 404, resp_body = ''{}'', retry_after = False\<rparr>"
    by (simp add: session_get_def urlopen.simps is_retry_def server_def)
  have g200: "\<And>c n rq. retry_status_forcelist (max_retries (session c)) = [408, 429, 500, 502, 503, 504]
      \<Longrightarrow> fst (session_get (server 200 ''<html>'') c n rq)
        = Inr \<lparr>status_code = 200, resp_body = ''<html>'', retry_after = False\<rparr>"
    by (simp add: session_get_def urlopen.simps is_retry_def server_def)
  have f0: "retry_status_forcelist (max_retries (session (self world0)))
      = [408, 429, 500, 502, 503, 504]"
    by (simp add: world0_def client0_def)
  have f1: "retry_status_forcelist (max_retries (session
        (self (world0\<lparr>self := client0\<lparr>ignore_http_errors := True\<rparr>\<rparr>))))
      = [408, 429, 500, 502, 503, 504]"
    by (simp add: client0_def)
  show ?thesis
    using query_status_and_decoding [OF t i d g404 [OF f0], where limit = "PInt 10"
        and time = PNone and params = None]
      query_status_and_decoding [OF t i d g404 [OF f1], where limit = "PInt 10"
        and time = PNone and params = None]
      query_status_and_decoding [OF t i d g200 [OF f0], where limit = "PInt 10"
        and time = PNone and params = None]
    by (simp add: server_def decode_sample_def world0_def client0_def)
qed

subsection \<open>The caller's dictionary\<close>

text \<open>
  C6, as stated, fails: \<open>query\<close> does not work on a copy. Given a non-empty
  dictionary as \<open>params\<close> it assigns \<open>query\<close>, \<open>limit\<close> and \<open>direction\<close> in that
  dictionary, so after the call the caller's dictionary has keys added and the value
  of \<open>limit\<close> overwritten.
\<close>

theorem query_writes_caller_map_counterexample:
  "heap world1 ! 0 = [(''limit'', PInt 5), (''step'', PStr ''30s'')]
   \<and> heap (snd (query (server 200 ''{}'') (PStr ''{app=loki}'') (PInt 10) PNone
                   (PStr ''backward'') (Some 0) world1)) ! 0
       = [(''limit'', PInt 10), (''step'', PStr ''30s''), (''query'', PStr ''{app=loki}''),
          (''direction'', PStr ''backward'')]"
  by (simp add: run_defs)

text \<open>
  C6, amended: \<open>ready\<close> leaves every dictionary of the caller as it was. \<open>query\<close>
  leaves a dictionary of the caller as it was unless that dictionary is non-empty, is
  passed as \<open>params\<close>, and the query argument is a non-empty string; a call without
  \<open>params\<close>, or with an empty dictionary, works on a new dictionary. Given a non-empty
  dictionary and a non-empty query string, \<open>query\<close> writes into the caller's
  dictionary, where the entries stay for later calls: \<open>query\<close>, \<open>time\<close> and \<open>limit\<close> when
  truthy, and \<open>direction\<close> when it is a supported value. In every case \<open>query\<close> removes no
  key from the caller's dictionary and changes the value of no key other than
  \<open>query\<close>, \<open>time\<close>, \<open>limit\<close> and \<open>direction\<close>.
\<close>

theorem caller_map_effect:
  assumes "a < length (heap w)"
  shows "heap (snd (ready env params w)) ! a = heap w ! a
         \<and> (params \<noteq> Some a \<or> heap w ! a = [] \<or> \<not> truthy q \<or> \<not> isinstance_str q \<longrightarrow>
              heap (snd (query env q limit time direction params w)) ! a = heap w ! a)
         \<and> (params = Some a \<and> heap w ! a \<noteq> [] \<and> truthy q \<and> isinstance_str q \<longrightarrow>
              (\<forall>k. map_of (heap (snd (query env q limit time direction params w)) ! a) k =
                 (if k = ''direction'' \<and> direction \<in> set direction_supported_values
                  then Some direction
                  else if k = ''limit'' \<and> truthy limit then Some limit
                  else if k = ''time'' \<and> truthy time then Some time
                  else if k = ''query'' then Some q
                  else map_of (heap w ! a) k)))
         \<and> (\<forall>k. k \<notin> named_keys \<longrightarrow>
              map_of (heap (snd (query env q limit time direction params w)) ! a) k
                = map_of (heap w ! a) k)
         \<and> fst ` set (heap w ! a)
              \<subseteq> fst ` set (heap (snd (query env q limit time direction params w)) ! a)"
proof (intro conjI impI)
  show "heap (snd (ready env params w)) ! a = heap w ! a"
    using assms by (simp add: heap_ready heap_params_or_new_old)
next
  assume c: "params \<noteq> Some a \<or> heap w ! a = [] \<or> \<not> truthy q \<or> \<not> isinstance_str q"
  show "heap (snd (query env q limit time direction params w)) ! a = heap w ! a"
  proof (cases "\<not> truthy q \<or> \<not> isinstance_str q")
    case True
    then show ?thesis
      using assms by (simp add: query_invalid heap_params_or_new_old)
  next
    case False
    with c have "params \<noteq> Some a \<or> heap w ! a = []" by blast
    with assms show ?thesis by (rule heap_query_old)
  qed
next
  assume "params = Some a \<and> heap w ! a \<noteq> [] \<and> truthy q \<and> isinstance_str q"
  with assms
  show "\<forall>k. map_of (heap (snd (query env q limit time direction params w)) ! a) k =
          (if k = ''direction'' \<and> direction \<in> set direction_supported_values
           then Some direction
           else if k = ''limit'' \<and> truthy limit then Some limit
           else if k = ''time'' \<and> truthy time then Some time
           else if k = ''query'' then Some q
           else map_of (heap w ! a) k)"
    by (simp add: heap_query query_params_written)
next
  have old: "heap (snd (params_or_new params w)) ! a = heap w ! a"
    using assms by (rule heap_params_or_new_old)
  have len: "a < length (heap (snd (params_or_new params w)))"
    using assms length_heap_params_or_new [of w params] by simp
  have both: "(\<forall>k. k \<notin> named_keys \<longrightarrow>
              map_of (heap (snd (query_params q limit time direction params w)) ! a) k
                = map_of (heap w ! a) k)
        \<and> fst ` set (heap w ! a)
              \<subseteq> fst ` set (heap (snd (query_params q limit time direction params w)) ! a)"
  proof (cases "a = fst (params_or_new params w)")
    case True
    with len have "fst (params_or_new params w) < length (heap (snd (params_or_new params w)))"
      by simp
    from heap_query_params_target [OF this, of q limit time direction] True old
    show ?thesis by simp
  next
    case False
    then show ?thesis
      using old by (simp add: heap_query_params_other)
  qed
  from both show "\<forall>k. k \<notin> named_keys \<longrightarrow>
      map_of (heap (snd (query env q limit time direction params w)) ! a) k
        = map_of (heap w ! a) k"
    by (simp add: heap_query)
  from both show "fst ` set (heap w ! a)
      \<subseteq> fst ` set (heap (snd (query env q limit time direction params w)) ! a)"
    by (simp add: heap_query)
qed

theorem caller_map_effect_witness:
  "0 < length (heap world1)
   \<and> heap (snd (ready (server 200 ''ready'') (Some 0) world1)) ! 0 = heap world1 ! 0
   \<and> heap (snd (query (server 200 ''{}'') (PStr '''') (PInt 10) PNone (PStr ''backward'')
                   (Some 0) world1)) ! 0 = heap world1 ! 0
   \<and> heap (snd (query (server 200 ''{}'') (PStr ''{app=loki}'') (PInt 10) PNone
                   (PStr ''backward'') None world1)) ! 0 = heap world1 ! 0
   \<and> ''step'' \<notin> named_keys
   \<and> map_of (heap (snd (query (server 200 ''{}'') (PStr ''{app=loki}'') (PInt 10)
                   (PStr ''1700000000'') (PStr ''backward'') (Some 0) world1)) ! 0) ''step''
       = Some (PStr ''30s'')
   \<and> map_of (heap (snd (query (server 200 ''{}'') (PStr ''{app=loki}'') (PInt 10)
                   (PStr ''1700000000'') (PStr ''backward'') (Some 0) world1)) ! 0) ''query''
       = Some (PStr ''{app=loki}'')
   \<and> map_of (heap (snd (query (server 200 ''{}'') (PStr ''{app=loki}'') (PInt 10)
                   (PStr ''1700000000'') (PStr ''backward'') (Some 0) world1)) ! 0) ''time''
       = Some (PStr ''1700000000'')
   \<and> map_of (heap (snd (query (server 200 ''{}'') (PStr ''{app=loki}'') (PInt 10)
                   (PStr ''1700000000'') (PStr ''backward'') (Some 0) world1)) ! 0) ''limit''
       = Some (PInt 10)
   \<and> map_of (req_params (last (sent (run_calls (server 200 ''{}'')
         [Query (PStr ''{app=loki}'') (PInt 10) (PStr ''1700000000'') (PStr ''backward'') (Some 0),
          Query (PStr ''{app=loki}'') (PInt 10) PNone (PStr ''backward'') (Some 0)]
         world1)))) ''time''
       = Some (PStr ''1700000000'')"
proof -
  have l: "0 < length (heap world1)"
    by (simp add: world1_def)
  show ?thesis
    using l
      caller_map_effect [OF l, where env = "server 200 ''ready''" and params = "Some 0"
        and q = "PStr ''''" and limit = "PInt 10" and time = PNone
        and direction = "PStr ''backward''"]
      caller_map_effect [OF l, where env = "server 200 ''{}''" and params = "Some 0"
        and q = "PStr ''''" and limit = "PInt 10" and time = PNone
        and direction = "PStr ''backward''"]
      caller_map_effect [OF l, where env = "server 200 ''{}''" and params = None
        and q = "PStr ''{app=loki}''" and limit = "PInt 10" and time = PNone
        and direction = "PStr ''backward''"]
      caller_map_effect [OF l, where env = "server 200 ''{}''" and params = "Some 0"
        and q = "PStr ''{app=loki}''" and limit = "PInt 10" and time = "PStr ''1700000000''"
        and direction = "PStr ''backward''"]
    by (simp add: run_defs named_keys_def)
qed

subsection \<open>The client object across calls\<close>

text \<open>
  C9, as stated, fails for the header map: the client holds a reference to the
  caller's dictionary, and a \<open>query\<close> that is given the same dictionary as \<open>params\<close>
  writes its parameters into it.
\<close>

theorem query_writes_header_map_counterexample:
  "headers (self world2) = Some 0
   \<and> heap world2 ! 0 = [(''X-Scope-OrgID'', PStr ''tenant1'')]
   \<and> headers (self (run_calls (server 200 ''{}'')
         [Query (PStr ''{app=loki}'') (PInt 0) PNone (PStr ''backward'') (Some 0)] world2)) = Some 0
   \<and> heap (run_calls (server 200 ''{}'')
         [Query (PStr ''{app=loki}'') (PInt 0) PNone (PStr ''backward'') (Some 0)] world2) ! 0
       = [(''X-Scope-OrgID'', PStr ''tenant1''), (''query'', PStr ''{app=loki}''), (''direction'', PStr ''backward'')]"
  by (simp add: run_defs world2_def)

text \<open>
  C9, amended: after every sequence of \<open>ready\<close> and \<open>query\<close> calls, failed or not, the
  client object has the fields it had before (URL, reference to the header map, host,
  TLS verification flag, error suppression flag, session with its retry policy); and
  the contents of the header map are as before too when no \<open>query\<close> of the sequence was
  given the header map itself as \<open>params\<close>.
\<close>

theorem client_unchanged:
  "self (run_calls env cs w) = self w
   \<and> (\<forall>h. headers (self w) = Some h \<and> h < length (heap w) \<and> (\<forall>c\<in>set cs. \<not> query_on c h)
          \<longrightarrow> heap (run_calls env cs w) ! h = heap w ! h)"
  by (simp add: self_run_calls heap_run_calls)

theorem client_unchanged_witness:
  "self (run_calls (server 503 ''{}'')
      [Ready None, Query (PStr ''{app=loki}'') (PInt 10) PNone (PStr ''backward'') (Some 1),
       Query (PStr '''') (PInt 10) PNone (PStr ''backward'') None, Ready (Some 0)] world2)
     = self world2
   \<and> headers (self world2) = Some 0
   \<and> heap (run_calls (server 503 ''{}'')
      [Ready None, Query (PStr ''{app=loki}'') (PInt 10) PNone (PStr ''backward'') (Some 1),
       Query (PStr '''') (PInt 10) PNone (PStr ''backward'') None, Ready (Some 0)] world2) ! 0
     = [(''X-Scope-OrgID'', PStr ''tenant1'')]"
  using client_unchanged [where env = "server 503 ''{}''" and w = world2
      and cs = "[Ready None, Query (PStr ''{app=loki}'') (PInt 10) PNone (PStr ''backward'') (Some 1),
       Query (PStr '''') (PInt 10) PNone (PStr ''backward'') None, Ready (Some 0)]"]
  by (simp add: world2_def)

end
